theory Spec2Isabelle
  imports Main "HOL-Library.Sublist"
begin

section \<open>JavaScript values\<close>

text \<open>
  The Core controller of \<^verbatim>\<open>packages/lib/src/core/core.ts\<close> works on plain JavaScript
  objects: the configuration, the session response, actions, payment responses. An object is
  a finite map from property names to values; a value is one of the JavaScript primitives, an
  object, a function (identified by its name), or one of the error objects the file creates.
\<close>

datatype val =
    Undefined
  | Null
  | Bool bool
  | Num int
  | Str string
  | Obj "string \<Rightarrow> val option"
  | Fn string
  | AdyenCheckoutError string string
  | Error string
  | TypeError string

type_synonym obj = "string \<rightharpoonup> val"

text \<open>Truthiness, as tested by \<^verbatim>\<open>if (x)\<close>, \<^verbatim>\<open>!x\<close>, \<^verbatim>\<open>x || y\<close> and \<^verbatim>\<open>x && y\<close>.\<close>

fun truthy :: "val \<Rightarrow> bool" where
  "truthy Undefined = False"
| "truthy Null = False"
| "truthy (Bool b) = b"
| "truthy (Num n) = (n \<noteq> 0)"
| "truthy (Str s) = (s \<noteq> [])"
| "truthy (Obj m) = True"
| "truthy (Fn f) = True"
| "truthy (AdyenCheckoutError t m) = True"
| "truthy (Error m) = True"
| "truthy (TypeError m) = True"

text \<open>\<^verbatim>\<open>x == null\<close>: what the optional chaining operators \<^verbatim>\<open>?.\<close> and \<^verbatim>\<open>??\<close> test.\<close>

fun nullish :: "val \<Rightarrow> bool" where
  "nullish Undefined = True"
| "nullish Null = True"
| "nullish v = False"

definition js_or :: "val \<Rightarrow> val \<Rightarrow> val" where
  "js_or a b = (if truthy a then a else b)"

text \<open>Property read \<^verbatim>\<open>o.k\<close> on an object: a missing key reads as \<^verbatim>\<open>undefined\<close>.\<close>

definition getp :: "obj \<Rightarrow> string \<Rightarrow> val" where
  "getp m k = (case m k of None \<Rightarrow> Undefined | Some v \<Rightarrow> v)"

text \<open>
  Property read on a value. The error objects carry \<^verbatim>\<open>message\<close> and a function its
  \<^verbatim>\<open>name\<close>; every other non-object has none of the properties the file reads. Each read in the source is either
  optional (\<^verbatim>\<open>x?.k\<close>) or made after a truthiness test of the receiver, so the read of a
  nullish receiver is the \<^verbatim>\<open>undefined\<close> of optional chaining.
\<close>

fun getv :: "val \<Rightarrow> string \<Rightarrow> val" where
  "getv (Obj m) k = getp m k"
| "getv (AdyenCheckoutError t m) k = (if k = ''message'' then Str m else Undefined)"
| "getv (Error m) k = (if k = ''message'' then Str m else Undefined)"
| "getv (TypeError m) k = (if k = ''message'' then Str m else Undefined)"
| "getv (Fn f) k = (if k = ''name'' then Str f else Undefined)"
| "getv v k = Undefined"

text \<open>Object spread \<^verbatim>\<open>{...x}\<close> of a value: only an object contributes properties.\<close>

fun spread :: "val \<Rightarrow> obj" where
  "spread (Obj m) = m"
| "spread v = Map.empty"

text \<open>Decimal digits of a number, for template literals.\<close>

fun digits :: "nat \<Rightarrow> string" where
  "digits n = (if n < 10 then [''0123456789'' ! n]
               else digits (n div 10) @ [''0123456789'' ! (n mod 10)])"

declare digits.simps [simp del]

text \<open>The string a template literal \<^verbatim>\<open>`${x}`\<close> inserts for a value.\<close>

fun toStr :: "val \<Rightarrow> string" where
  "toStr Undefined = ''undefined''"
| "toStr Null = ''null''"
| "toStr (Bool b) = (if b then ''true'' else ''false'')"
| "toStr (Num n) = (if n < 0 then ''-'' @ digits (nat (- n)) else digits (nat n))"
| "toStr (Str s) = s"
| "toStr (Obj m) = ''[object Object]''"
| "toStr (Fn f) = f"
| "toStr (AdyenCheckoutError t m) = ''AdyenCheckoutError: '' @ m"
| "toStr (Error m) = ''Error: '' @ m"
| "toStr (TypeError m) = ''TypeError: '' @ m"

text \<open>\<^verbatim>\<open>s.includes(sub)\<close>: \<open>sub\<close> occurs in \<open>s\<close> as a contiguous substring.\<close>

definition str_includes :: "string \<Rightarrow> string \<Rightarrow> bool" where
  "str_includes s sub = sublist sub s"

text \<open>A settled or unsettled promise: its eventual outcome.\<close>

datatype 'a promise = Fulfilled 'a | Rejected val | Pending

text \<open>The completion of a synchronous call that changes state before it may throw.\<close>

datatype completion = Returns | Throws val

section \<open>The Core controller\<close>

text \<open>
  Modelled from the spec: the \<^verbatim>\<open>Session\<close> class (\<^verbatim>\<open>./CheckoutSession\<close>) is not part of
  the sources. The spec describes a session as the identifier and token it wraps together
  with the resolved loading context, created at Core construction; the constructor call
  \<^verbatim>\<open>new Session(this.options.session, this.options.clientKey, this.loadingContext)\<close> is
  the record of its three arguments.
\<close>

record session =
  sessionConfig :: val
  sessionClientKey :: val
  sessionLoadingContext :: string

text \<open>
  Modelled from the spec: the \<^verbatim>\<open>PaymentMethods\<close> catalogue class is not part of the
  sources; \<^verbatim>\<open>new PaymentMethods(response, options)\<close> is the record of its arguments.
\<close>

record paymentMethods =
  pmResponse :: val
  pmOptions :: obj

text \<open>
  Modelled from the spec: the module classes (\<^verbatim>\<open>RiskModule\<close>, \<^verbatim>\<open>Analytics\<close>,
  \<^verbatim>\<open>Resources\<close>, \<^verbatim>\<open>Language\<close>, \<^verbatim>\<open>SRPanel\<close>) are not part of the sources; each
  module is the data it is constructed from. \<open>mid\<close> is the identity of the frozen modules
  object: the number of module objects the instance had allocated before it.
\<close>

record modules =
  mid :: nat
  risk :: obj
  analytics :: obj
  resources :: string
  i18n :: "val \<times> val \<times> val"
  srPanel :: obj

text \<open>
  What the instance does to the world outside it, in order: calls of caller-supplied
  functions, session requests, console warnings, analytics events, updates of mounted
  components.
\<close>

datatype event =
    Invoke string "val list"
  | SetupSession
  | SessionSubmitDetails val
  | ConsoleWarn string
  | SendAnalytics val "string \<Rightarrow> val option"
  | ComponentUpdate nat "string \<Rightarrow> val option"
  | UnhandledRejection val

text \<open>
  Everything the file imports and the sources do not hold is a parameter: the environment
  resolvers, the constants, the build-time \<^verbatim>\<open>process.env.NODE_ENV\<close>, the static
  \<^verbatim>\<open>Core.metadata\<close> record, the outcome of the two session requests, the way the caller's
  \<^verbatim>\<open>onAdditionalDetails\<close> eventually uses the \<^verbatim>\<open>resolve\<close>/\<^verbatim>\<open>reject\<close> pair it is
  handed, and the three response helpers of \<^verbatim>\<open>UIElement/utils\<close>.
  \<open>cleanupFinalResult\<close> edits the response in place; the parameter returns the edited
  response.
\<close>

record env =
  resolveEnvironment :: "val \<Rightarrow> val \<Rightarrow> string"
  resolveCDNEnvironment :: "val \<Rightarrow> val \<Rightarrow> string"
  resolveAnalyticsEnvironment :: "val \<Rightarrow> string"
  DEFAULT_LOCALE :: string
  THREEDS2_FULL :: string
  ANALYTICS_ACTION_STR :: string
  NODE_ENV :: string
  metadata :: val
  setupSession :: "session \<Rightarrow> obj \<Rightarrow> obj promise"
  sessionSubmitDetails :: "session \<Rightarrow> val \<Rightarrow> val promise"
  settles :: "string \<Rightarrow> val \<Rightarrow> val promise"
  sanitizeResponse :: "val \<Rightarrow> val"
  verifyPaymentDidNotFail :: "val \<Rightarrow> val promise"
  cleanupFinalResult :: "val \<Rightarrow> val"
  processGlobalOptions :: "obj \<Rightarrow> obj"
  stringify :: "val \<Rightarrow> string"
  registry :: "string \<rightharpoonup> string"

record core =
  options :: obj
  session :: "session option"
  loadingContext :: string
  cdnContext :: string
  analyticsContext :: string
  paymentMethodsResponse :: "paymentMethods option"
  modules :: "modules option"
  components :: "nat list"
  trace :: "event list"
  allocs :: nat

text \<open>
  Modelled from the spec: the constant \<^verbatim>\<open>IMPLEMENTATION_ERROR\<close> of
  \<^verbatim>\<open>./Errors/AdyenCheckoutError\<close> is not part of the sources; it is the type tag of the
  spec's \<^verbatim>\<open>ImplementationError\<close>, which the constructor writes as the literal.
\<close>

definition IMPLEMENTATION_ERROR :: string where
  "IMPLEMENTATION_ERROR = ''IMPLEMENTATION_ERROR''"

subsection \<open>setOptions\<close>

text \<open>
  \<^verbatim>\<open>this.options = { ...this.options, ...options, locale: options?.locale || this.options?.locale }\<close>.
  \<open>None\<close> is the \<^verbatim>\<open>this.options\<close> of an instance under construction, still undefined.
\<close>

definition setOptions :: "obj option \<Rightarrow> obj \<Rightarrow> obj" where
  "setOptions this_options opts =
     ((case this_options of None \<Rightarrow> Map.empty | Some cur \<Rightarrow> cur) ++ opts)
       (''locale'' \<mapsto>
          js_or (getp opts ''locale'')
                (case this_options of None \<Rightarrow> Undefined | Some cur \<Rightarrow> getp cur ''locale''))"

subsection \<open>The constructor\<close>

text \<open>\<^verbatim>\<open>this.options.clientKey?.substr(0, 4)\<close>; a value without that method throws.\<close>

fun clientKeyType :: "val \<Rightarrow> val + val" where
  "clientKeyType (Str s) = Inr (Str (take 4 s))"
| "clientKeyType Undefined = Inr Undefined"
| "clientKeyType Null = Inr Undefined"
| "clientKeyType v = Inl (TypeError ''this.options.clientKey.substr is not a function'')"

definition mismatchMessage :: "val \<Rightarrow> val \<Rightarrow> string" where
  "mismatchMessage kt environment =
     ''Error: you are using a '' @ toStr kt @ '' clientKey against the '' @ toStr environment
       @ '' environment''"

text \<open>
  The constructor takes the global \<^verbatim>\<open>window\<close> and the caller's configuration and either
  throws or returns the instance; with either, the \<^verbatim>\<open>window\<close> it leaves.
\<close>

definition Core_constructor :: "env \<Rightarrow> obj \<Rightarrow> obj \<Rightarrow> (val + core) \<times> obj" where
  "Core_constructor env window props =
     (let opts = setOptions None ([''exposeLibraryMetadata'' \<mapsto> Bool True] ++ props);
          lc = resolveEnvironment env (getp opts ''environment'')
                 (getv (getp opts ''environmentUrls'') ''api'');
          cdn = resolveCDNEnvironment env
                 (js_or (getp opts ''resourceEnvironment'') (getp opts ''environment''))
                 (getv (getp opts ''environmentUrls'') ''api'');
          an = resolveAnalyticsEnvironment env (getp opts ''environment'');
          sess = (if truthy (getp opts ''session'')
                  then Some \<lparr>sessionConfig = getp opts ''session'',
                             sessionClientKey = getp opts ''clientKey'',
                             sessionLoadingContext = lc\<rparr>
                  else None)
      in case clientKeyType (getp opts ''clientKey'') of
           Inl e \<Rightarrow> (Inl e, window)
         | Inr kt \<Rightarrow>
             if (kt = Str ''test'' \<or> kt = Str ''live'') \<and> \<not> str_includes lc (toStr kt)
             then (Inl (AdyenCheckoutError ''IMPLEMENTATION_ERROR''
                          (mismatchMessage kt (getp opts ''environment''))), window)
             else (Inr \<lparr>options = opts, session = sess, loadingContext = lc, cdnContext = cdn,
                        analyticsContext = an, paymentMethodsResponse = None, modules = None,
                        components = [], trace = [], allocs = 0\<rparr>,
                   if truthy (getp opts ''exposeLibraryMetadata'')
                   then window(''AdyenWebMetadata'' \<mapsto> metadata env)
                   else window))"

subsection \<open>Calling a value\<close>

definition log :: "event list \<Rightarrow> core \<Rightarrow> core" where
  "log evs c = c\<lparr>trace := trace c @ evs\<rparr>"

text \<open>
  The call \<^verbatim>\<open>f(args)\<close>: a function is invoked, which the trace records; any other value
  throws. A caller-supplied function is opaque: its invocation is an event, and it returns
  normally.
\<close>

fun invoke :: "val \<Rightarrow> val list \<Rightarrow> val + event list" where
  "invoke (Fn f) args = Inr [Invoke f args]"
| "invoke v args = Inl (TypeError (toStr v @ '' is not a function''))"

text \<open>The optional call \<^verbatim>\<open>f?.(args)\<close>: nothing happens when \<open>f\<close> is nullish.\<close>

definition opt_invoke :: "val \<Rightarrow> val list \<Rightarrow> val + event list" where
  "opt_invoke f args = (if nullish f then Inr [] else invoke f args)"

subsection \<open>initialize\<close>

definition createPaymentMethodsList :: "core \<Rightarrow> val \<Rightarrow> core" where
  "createPaymentMethodsList c pmr =
     c\<lparr>paymentMethodsResponse :=
         Some \<lparr>pmResponse = js_or (getp (options c) ''paymentMethodsResponse'') pmr,
               pmOptions = options c\<rparr>\<rparr>"

text \<open>
  The \<^verbatim>\<open>then\<close> handler of \<^verbatim>\<open>initializeCore\<close>: the session response is destructured
  into four named fields and the rest, and folded into the options.
\<close>

definition sessionResponseReceived :: "core \<Rightarrow> obj \<Rightarrow> core" where
  "sessionResponseReceived c sessionResponse =
     (let amount = getp sessionResponse ''amount'';
          shopperLocale = getp sessionResponse ''shopperLocale'';
          countryCode = getp sessionResponse ''countryCode'';
          pms = getp sessionResponse ''paymentMethods'';
          rest = sessionResponse |` (- {''amount'', ''shopperLocale'', ''countryCode'',
                                        ''paymentMethods''});
          c' = c\<lparr>options := setOptions (Some (options c))
                 (rest(''amount'' \<mapsto>
                         (if truthy (getp (options c) ''order'')
                          then getv (getp (options c) ''order'') ''remainingAmount''
                          else amount),
                       ''locale'' \<mapsto> js_or (getp (options c) ''locale'') shopperLocale,
                       ''countryCode'' \<mapsto> js_or (getp (options c) ''countryCode'') countryCode))\<rparr>
      in createPaymentMethodsList c' pms)"

text \<open>The \<^verbatim>\<open>catch\<close> handler of \<^verbatim>\<open>initializeCore\<close>.\<close>

definition sessionSetupFailed :: "core \<Rightarrow> val \<Rightarrow> unit promise \<times> core" where
  "sessionSetupFailed c error =
     (if truthy (getp (options c) ''onError'')
      then (case invoke (getp (options c) ''onError'') [error] of
              Inr evs \<Rightarrow> (Rejected error, log evs c)
            | Inl e \<Rightarrow> (Rejected e, c))
      else (Rejected error, c))"

definition initializeCore :: "env \<Rightarrow> core \<Rightarrow> unit promise \<times> core" where
  "initializeCore env c =
     (case session c of
        Some s \<Rightarrow>
          (case setupSession env s (options c) of
             Fulfilled sessionResponse \<Rightarrow>
               (Fulfilled (), sessionResponseReceived (log [SetupSession] c) sessionResponse)
           | Rejected error \<Rightarrow> sessionSetupFailed (log [SetupSession] c) error
           | Pending \<Rightarrow> (Pending, log [SetupSession] c))
      | None \<Rightarrow> (Fulfilled (), createPaymentMethodsList c Undefined))"

definition validateCoreConfiguration :: "env \<Rightarrow> core \<Rightarrow> completion \<times> core" where
  "validateCoreConfiguration env c =
     (let c1 = (if truthy (getp (options c) ''paymentMethodsConfiguration'')
                then log [ConsoleWarn
                  ''WARNING:  \"paymentMethodsConfiguration\" is supported only by Drop-in.''] c
                else c);
          c2 = (if \<not> truthy (getp (options c1) ''locale'')
                then c1\<lparr>options := setOptions (Some (options c1))
                                      [''locale'' \<mapsto> Str (DEFAULT_LOCALE env)]\<rparr>
                else c1)
      in if \<not> truthy (getp (options c2) ''countryCode'')
         then (Throws (AdyenCheckoutError IMPLEMENTATION_ERROR
                 (''You must specify a countryCode when initializing checkout. '' @
                  ''(If you are using a session then this session should be initialized with a countryCode.)'')),
               c2)
         else (Returns, c2))"

definition createCoreModules :: "env \<Rightarrow> core \<Rightarrow> core" where
  "createCoreModules env c =
     (case modules c of
        Some m \<Rightarrow>
          (if NODE_ENV env = ''development''
           then log [ConsoleWarn ''Core: Core modules are already created.''] c
           else c)
      | None \<Rightarrow>
          c\<lparr>modules := Some
               \<lparr>mid = allocs c,
                risk = (options c)(''loadingContext'' \<mapsto> Str (loadingContext c)),
                analytics =
                  [''loadingContext'' \<mapsto> Str (loadingContext c),
                   ''analyticsContext'' \<mapsto> Str (analyticsContext c),
                   ''clientKey'' \<mapsto> getp (options c) ''clientKey'',
                   ''locale'' \<mapsto> getp (options c) ''locale'',
                   ''analytics'' \<mapsto> getp (options c) ''analytics'',
                   ''amount'' \<mapsto> getp (options c) ''amount'',
                   ''bundleType'' \<mapsto> getv (metadata env) ''bundleType''],
                resources = cdnContext c,
                i18n = (getp (options c) ''locale'', getp (options c) ''translations'',
                        getp (options c) ''translationFile''),
                srPanel = spread (getp (options c) ''srConfig'')\<rparr>,
             allocs := Suc (allocs c)\<rparr>)"

definition initialize :: "env \<Rightarrow> core \<Rightarrow> unit promise \<times> core" where
  "initialize env c =
     (case initializeCore env c of
        (Fulfilled u, c1) \<Rightarrow>
          (case validateCoreConfiguration env c1 of
             (Throws e, c2) \<Rightarrow> (Rejected e, c2)
           | (Returns, c2) \<Rightarrow> (Fulfilled (), createCoreModules env c2))
      | (Rejected e, c1) \<Rightarrow> (Rejected e, c1)
      | (Pending, c1) \<Rightarrow> (Pending, c1))"

text \<open>
  \<^verbatim>\<open>update\<close>: merge the options, initialize again, then update every mounted component
  (a component is known by its \<^verbatim>\<open>_id\<close>).
\<close>

definition update :: "env \<Rightarrow> core \<Rightarrow> obj \<Rightarrow> unit promise \<times> core" where
  "update env c opts =
     (case initialize env (c\<lparr>options := setOptions (Some (options c)) opts\<rparr>) of
        (Fulfilled u, c1) \<Rightarrow>
          (Fulfilled (), log (map (\<lambda>i. ComponentUpdate i opts) (components c1)) c1)
      | (Rejected e, c1) \<Rightarrow> (Rejected e, c1)
      | (Pending, c1) \<Rightarrow> (Pending, c1))"

subsection \<open>submitDetails\<close>

text \<open>
  The executor of the promise built for the caller's \<^verbatim>\<open>onAdditionalDetails\<close>: it runs at
  once and calls the callback with the details, no component and the
  \<^verbatim>\<open>resolve\<close>/\<^verbatim>\<open>reject\<close> pair; a throw of the executor rejects the promise. The
  result is the promise together with what happened synchronously.
\<close>

definition additionalDetailsPromise :: "env \<Rightarrow> obj \<Rightarrow> val \<Rightarrow> val promise \<times> event list" where
  "additionalDetailsPromise env opts details =
     (case getp opts ''onAdditionalDetails'' of
        Fn f \<Rightarrow>
          (settles env f details,
           [Invoke f [Obj [''data'' \<mapsto> details], Undefined,
                      Obj [''resolve'' \<mapsto> Fn ''resolve'', ''reject'' \<mapsto> Fn ''reject'']]])
      | v \<Rightarrow> (Rejected (TypeError (toStr v @ '' is not a function'')), []))"

text \<open>
  \<^verbatim>\<open>this.session.submitDetails(details).catch(...)\<close>: the promise after the
  \<^verbatim>\<open>catch\<close> handler, and what the handler did when the request was rejected.
\<close>

definition sessionDetailsPromise :: "env \<Rightarrow> obj \<Rightarrow> session \<Rightarrow> val \<Rightarrow> val promise \<times> event list" where
  "sessionDetailsPromise env opts s details =
     (case sessionSubmitDetails env s details of
        Rejected error \<Rightarrow>
          (case opt_invoke (getp opts ''onError'') [error] of
             Inr evs \<Rightarrow> (Rejected error, evs)
           | Inl e \<Rightarrow> (Rejected e, []))
      | p \<Rightarrow> (p, []))"

text \<open>The \<^verbatim>\<open>catch\<close> handler at the end of the chain.\<close>

definition paymentFailed :: "env \<Rightarrow> obj \<Rightarrow> val \<Rightarrow> event list" where
  "paymentFailed env opts response =
     (case opt_invoke (getp opts ''onPaymentFailed'') [cleanupFinalResult env response] of
        Inr evs \<Rightarrow> evs
      | Inl e \<Rightarrow> [UnhandledRejection e])"

text \<open>The last \<^verbatim>\<open>then\<close> handler of the chain; what it throws reaches the \<^verbatim>\<open>catch\<close>.\<close>

definition paymentCompleted :: "env \<Rightarrow> obj \<Rightarrow> val \<Rightarrow> event list" where
  "paymentCompleted env opts response =
     (case opt_invoke (getp opts ''onPaymentCompleted'') [cleanupFinalResult env response] of
        Inr evs \<Rightarrow> evs
      | Inl e \<Rightarrow> paymentFailed env opts e)"

text \<open>
  \<^verbatim>\<open>promise.then(sanitizeResponse).then(verifyPaymentDidNotFail).then(...).catch(...)\<close>:
  what the chain does once the promise settles.
\<close>

definition postProcess :: "env \<Rightarrow> obj \<Rightarrow> val promise \<Rightarrow> event list" where
  "postProcess env opts promise =
     (case promise of
        Fulfilled v \<Rightarrow>
          (case verifyPaymentDidNotFail env (sanitizeResponse env v) of
             Fulfilled response \<Rightarrow> paymentCompleted env opts response
           | Rejected response \<Rightarrow> paymentFailed env opts response
           | Pending \<Rightarrow> [])
      | Rejected response \<Rightarrow> paymentFailed env opts response
      | Pending \<Rightarrow> [])"

definition noPathwayMessage :: string where
  "noPathwayMessage =
     ''It can not submit the details. The callback \"onAdditionalDetails\" or the Session is not setup correctly.''"

text \<open>
  \<open>promise1\<close> is the variable \<^verbatim>\<open>promise\<close> after the first \<^verbatim>\<open>if\<close>, \<open>promise2\<close> after
  the second. The trace lists the synchronous events first, then what the handlers do.
\<close>

definition submitDetails :: "env \<Rightarrow> core \<Rightarrow> val \<Rightarrow> completion \<times> core" where
  "submitDetails env c details =
     (let opts = options c;
          (promise1, evs1) =
            (if truthy (getp opts ''onAdditionalDetails'')
             then (case additionalDetailsPromise env opts details of (p, evs) \<Rightarrow> (Some p, evs))
             else (None, []));
          (promise2, evs2, later) =
            (case session c of
               Some s \<Rightarrow>
                 (case sessionDetailsPromise env opts s details of
                    (p, evs) \<Rightarrow> (Some p, [SessionSubmitDetails details], evs))
             | None \<Rightarrow> (promise1, [], []))
      in case promise2 of
           None \<Rightarrow>
             (case opt_invoke (getp opts ''onError'')
                     [AdyenCheckoutError ''IMPLEMENTATION_ERROR'' noPathwayMessage] of
                Inr evs \<Rightarrow> (Returns, log (evs1 @ evs2 @ evs) c)
              | Inl e \<Rightarrow> (Throws e, log (evs1 @ evs2) c))
         | Some p \<Rightarrow> (Returns, log (evs1 @ evs2 @ later @ postProcess env opts p) c))"

subsection \<open>createFromAction\<close>

text \<open>
  Modelled from the spec: the \<^verbatim>\<open>hasOwnProperty\<close> helper of \<^verbatim>\<open>../utils/hasOwnProperty\<close>
  is not part of the sources; by the spec it tells whether the object has the field.
\<close>

fun hasOwnProperty :: "val \<Rightarrow> string \<Rightarrow> bool" where
  "hasOwnProperty (Obj m) k = (k \<in> dom m)"
| "hasOwnProperty v k = False"

definition wholeResponseMessage :: string where
  "wholeResponseMessage =
     ''createFromAction::Invalid Action - the passed action object itself has an \"action\" property and '' @
     ''a \"resultCode\": have you passed in the whole response object by mistake?''"

definition missingTypeMessage :: string where
  "missingTypeMessage =
     ''createFromAction::Invalid Action - the passed action object does not have a \"type\" property''"

text \<open>The error \<^verbatim>\<open>handleCreateError\<close> throws (it never returns).\<close>

definition handleCreateError :: "env \<Rightarrow> val \<Rightarrow> val" where
  "handleCreateError env paymentMethod =
     (let paymentMethodName =
            (if nullish (getv paymentMethod ''name'') then Str ''The passed payment method''
             else getv paymentMethod ''name'');
          errorMessage =
            (if truthy paymentMethod
             then toStr paymentMethodName @
                  '' is not a valid Checkout Component. What was passed as a txVariant was: '' @
                  stringify env paymentMethod @
                  ''. Check if this payment method is configured in the Backoffice or if the txVariant is a valid one''
             else ''No Payment Method component was passed'')
      in Error errorMessage)"

text \<open>
  A property of the props handed to a new element: a plain value, or a reference to the
  instance, its modules, its session or its dispatcher.
\<close>

datatype pv =
    PV val
  | PCore
  | PI18n "val \<times> val \<times> val"
  | PModules nat
  | PSession "session option"
  | PStr string
  | PCreateFromAction

type_synonym props = "string \<rightharpoonup> pv"

definition getCorePropsForComponent :: "env \<Rightarrow> core \<Rightarrow> val + props" where
  "getCorePropsForComponent env c =
     (case modules c of
        None \<Rightarrow> Inl (TypeError ''Cannot read properties of undefined (reading 'i18n')'')
      | Some m \<Rightarrow>
          Inr ((map_option PV \<circ> processGlobalOptions env (options c))
                 (''core'' \<mapsto> PCore,
                  ''i18n'' \<mapsto> PI18n (i18n m),
                  ''modules'' \<mapsto> PModules (mid m),
                  ''session'' \<mapsto> PSession (session c),
                  ''loadingContext'' \<mapsto> PStr (loadingContext c),
                  ''cdnContext'' \<mapsto> PStr (cdnContext c),
                  ''createFromAction'' \<mapsto> PCreateFromAction)))"

text \<open>
  The component key of an action:
  \<^verbatim>\<open>action.type === THREEDS2_FULL ? `${action.type}${action.subtype}` : action.paymentMethodType\<close>.
\<close>

definition componentKey :: "env \<Rightarrow> val \<Rightarrow> val" where
  "componentKey env action =
     (if getv action ''type'' = Str (THREEDS2_FULL env)
      then Str (toStr (getv action ''type'') @ toStr (getv action ''subtype''))
      else getv action ''paymentMethodType'')"

record element =
  elementType :: string
  elementProps :: props

text \<open>
  Modelled from the spec: the dispatcher \<^verbatim>\<open>getComponentForAction\<close> of
  \<^verbatim>\<open>./ProcessResponse/PaymentAction\<close> and the registry of \<^verbatim>\<open>./core.registry\<close> are not
  part of the sources. By the spec (4.1, 4.4 (e)) the component key is resolved through the
  registry, a mapping from the type string to a constructor, and a new element is constructed
  with the merged props; an unknown key surfaces as a thrown error naming the offending
  payment method and the raw value passed. The source hands the dispatcher the action, so
  the raw value passed is the action; the payment method the error names is the
  \<^verbatim>\<open>paymentMethodType\<close> of the action, or its \<^verbatim>\<open>type\<close> when it has none, as in the
  spec's example (section 8), where \<^verbatim>\<open>createFromAction({ type: 'unknownType' })\<close> with no
  matching registry entry throws naming \<^verbatim>\<open>unknownType\<close>.
\<close>

definition offendingPaymentMethod :: "val \<Rightarrow> val" where
  "offendingPaymentMethod action =
     js_or (getv action ''paymentMethodType'') (getv action ''type'')"

definition unknownComponentMessage :: "env \<Rightarrow> val \<Rightarrow> string" where
  "unknownComponentMessage env action =
     toStr (offendingPaymentMethod action) @
     '' is not a valid Checkout Component. What was passed was: '' @
     stringify env action"

fun registryGetComponent :: "env \<Rightarrow> val \<Rightarrow> string option" where
  "registryGetComponent env (Str txVariant) = registry env txVariant"
| "registryGetComponent env v = None"

definition getComponentForAction :: "env \<Rightarrow> val \<Rightarrow> props \<Rightarrow> val + element" where
  "getComponentForAction env action ps =
     (case registryGetComponent env (componentKey env action) of
        Some ctor \<Rightarrow> Inr \<lparr>elementType = ctor, elementProps = ps\<rparr>
      | None \<Rightarrow> Inl (Error (unknownComponentMessage env action)))"

text \<open>
  \<^verbatim>\<open>createFromAction(action, options)\<close>: the thrown error or the new element, and the
  instance with the analytics event it has sent.
\<close>

definition createFromAction :: "env \<Rightarrow> core \<Rightarrow> val \<Rightarrow> obj \<Rightarrow> (val + element) \<times> core" where
  "createFromAction env c action opts =
     (if \<not> truthy action \<or> \<not> truthy (getv action ''type'')
      then (if hasOwnProperty action ''action'' \<and> hasOwnProperty action ''resultCode''
            then (Inl (Error wholeResponseMessage), c)
            else (Inl (Error missingTypeMessage), c))
      else if truthy (getv action ''type'')
      then (case modules c of
              None \<Rightarrow>
                (Inl (TypeError ''Cannot read properties of undefined (reading 'analytics')''), c)
            | Some m \<Rightarrow>
                (let component = componentKey env action;
                     c1 = log [SendAnalytics component
                                 [''type'' \<mapsto> Str (ANALYTICS_ACTION_STR env),
                                  ''subtype'' \<mapsto> getv action ''type'',
                                  ''message'' \<mapsto>
                                     Str (toStr component @ '' action was handled by the SDK'')]] c
                 in case getCorePropsForComponent env c1 of
                      Inl e \<Rightarrow> (Inl e, c1)
                    | Inr coreProps \<Rightarrow>
                        (getComponentForAction env action (coreProps ++ (map_option PV \<circ> opts)),
                         c1)))
      else (Inl (handleCreateError env Undefined), c))"

section \<open>Sample inputs\<close>

text \<open>
  A concrete environment for the closed instances below: the test and live endpoints, a
  production build, a session that answers with a Dutch shopper, helpers that pass the
  response on, and a registry that knows the redirect component.
\<close>

definition sample_sessionResponse :: obj where
  "sample_sessionResponse =
     [''id'' \<mapsto> Str ''CS123'',
      ''amount'' \<mapsto> Obj [''value'' \<mapsto> Num 1000, ''currency'' \<mapsto> Str ''EUR''],
      ''shopperLocale'' \<mapsto> Str ''nl-NL'',
      ''countryCode'' \<mapsto> Str ''NL'',
      ''paymentMethods'' \<mapsto> Obj Map.empty]"

text \<open>
  \<^verbatim>\<open>JSON.stringify\<close> on the values the instances below print: a string, and an object
  whose properties are among the string properties of an action.
\<close>

fun commas :: "string list \<Rightarrow> string" where
  "commas [] = []"
| "commas [x] = x"
| "commas (x # y # ys) = x @ '','' @ commas (y # ys)"

definition sample_stringify :: "val \<Rightarrow> string" where
  "sample_stringify v =
     (case v of
        Obj m \<Rightarrow>
          ''{'' @
          commas (map (\<lambda>k. ''\"'' @ k @ ''\":\"'' @ toStr (getp m k) @ ''\"'')
                    (filter (\<lambda>k. k \<in> dom m) [''type'', ''subtype'', ''paymentMethodType''])) @
          ''}''
      | _ \<Rightarrow> ''\"'' @ toStr v @ ''\"'')"

definition sample_env :: env where
  "sample_env =
     \<lparr>resolveEnvironment =
        (\<lambda>e u. if truthy u then toStr u
                else if e = Str ''live'' then ''https://checkoutshopper-live.adyen.com/checkoutshopper/''
                else ''https://checkoutshopper-test.adyen.com/checkoutshopper/''),
      resolveCDNEnvironment = (\<lambda>e u. ''https://checkoutshopper-test.adyen.com/checkoutshopper/''),
      resolveAnalyticsEnvironment = (\<lambda>e. ''https://checkoutanalytics-test.adyen.com/checkoutanalytics/''),
      DEFAULT_LOCALE = ''en-US'',
      THREEDS2_FULL = ''threeDS2'',
      ANALYTICS_ACTION_STR = ''action'',
      NODE_ENV = ''production'',
      metadata = Obj [''version'' \<mapsto> Str ''6.0.0'', ''bundleType'' \<mapsto> Str ''esm''],
      setupSession =
        (\<lambda>s opts. Fulfilled sample_sessionResponse),
      sessionSubmitDetails = (\<lambda>s d. Fulfilled (Str ''response of the session'')),
      settles = (\<lambda>f d. Fulfilled (Str ''response of the callback'')),
      sanitizeResponse = (\<lambda>v. v),
      verifyPaymentDidNotFail =
        (\<lambda>v. if getv v ''resultCode'' \<in> {Str ''Cancelled'', Str ''Error'', Str ''Refused''}
             then Rejected v else Fulfilled v),
      cleanupFinalResult = (\<lambda>v. v),
      processGlobalOptions = (\<lambda>m. m),
      stringify = sample_stringify,
      registry = [''redirect'' \<mapsto> ''Redirect'']\<rparr>"

definition sample_session :: session where
  "sample_session =
     \<lparr>sessionConfig = Obj [''id'' \<mapsto> Str ''CS123'', ''sessionData'' \<mapsto> Str ''Ab02b4c0''],
      sessionClientKey = Str ''test_ABCDEF'',
      sessionLoadingContext = ''https://checkoutshopper-test.adyen.com/checkoutshopper/''\<rparr>"

text \<open>An instance as the constructor leaves it, for the given options and session.\<close>

definition sample_core :: "obj \<Rightarrow> session option \<Rightarrow> core" where
  "sample_core opts sess =
     \<lparr>options = opts, session = sess,
      loadingContext = ''https://checkoutshopper-test.adyen.com/checkoutshopper/'',
      cdnContext = ''https://checkoutshopper-test.adyen.com/checkoutshopper/'',
      analyticsContext = ''https://checkoutanalytics-test.adyen.com/checkoutanalytics/'',
      paymentMethodsResponse = None, modules = None, components = [], trace = [], allocs = 0\<rparr>"

definition sample_dev_env :: env where
  "sample_dev_env = sample_env\<lparr>NODE_ENV := ''development''\<rparr>"

definition sample_offline_env :: env where
  "sample_offline_env = sample_env\<lparr>setupSession := (\<lambda>s opts. Rejected (Error ''Failed to fetch''))\<rparr>"

definition sample_details :: val where
  "sample_details = Obj [''redirectResult'' \<mapsto> Str ''X3XtfGC9'']"

text \<open>An instance whose modules have been created.\<close>

definition sample_ready_core :: core where
  "sample_ready_core = createCoreModules sample_env (sample_core [''countryCode'' \<mapsto> Str ''NL''] None)"

section \<open>Properties\<close>

subsection \<open>Reading merged objects\<close>

lemma getp_upd [simp]: "getp (m(k \<mapsto> v)) k' = (if k' = k then v else getp m k')"
  by (simp add: getp_def)

lemma getp_empty [simp]: "getp Map.empty k = Undefined"
  by (simp add: getp_def)

lemma getp_add: "getp (m ++ n) k = (case n k of Some v \<Rightarrow> v | None \<Rightarrow> getp m k)"
  by (simp add: getp_def map_add_def split: option.splits)

subsection \<open>setOptions\<close>

text \<open>
  C9. The merge of \<^verbatim>\<open>setOptions\<close> is shallow, patch over prior, but for the locale: the
  resulting locale is the locale of the patch when that is truthy, and the prior locale
  otherwise; every other key holds the value of the patch when the patch has the key, and
  the prior value otherwise.
\<close>

theorem setOptions_merge:
  "getp (setOptions prior patch) ''locale'' =
     (if truthy (getp patch ''locale'') then getp patch ''locale''
      else (case prior of None \<Rightarrow> Undefined | Some cur \<Rightarrow> getp cur ''locale''))
   \<and> (\<forall>k. k \<noteq> ''locale'' \<longrightarrow>
          setOptions prior patch k =
            (case patch k of Some v \<Rightarrow> Some v
             | None \<Rightarrow> (case prior of None \<Rightarrow> None | Some cur \<Rightarrow> cur k)))"
  by (simp add: setOptions_def js_or_def map_add_def split: option.splits)

theorem setOptions_merge_witness:
  "getp (setOptions (Some [''locale'' \<mapsto> Str ''nl-NL'', ''amount'' \<mapsto> Num 5])
                    [''locale'' \<mapsto> Str '''', ''countryCode'' \<mapsto> Str ''NL'']) ''locale'' = Str ''nl-NL''
   \<and> setOptions (Some [''locale'' \<mapsto> Str ''nl-NL'', ''amount'' \<mapsto> Num 5])
                 [''locale'' \<mapsto> Str '''', ''countryCode'' \<mapsto> Str ''NL''] ''amount'' = Some (Num 5)
   \<and> setOptions (Some [''locale'' \<mapsto> Str ''nl-NL'', ''amount'' \<mapsto> Num 5])
                 [''locale'' \<mapsto> Str '''', ''countryCode'' \<mapsto> Str ''NL''] ''countryCode'' = Some (Str ''NL'')"
  using setOptions_merge [of "Some [''locale'' \<mapsto> Str ''nl-NL'', ''amount'' \<mapsto> Num 5]"
                             "[''locale'' \<mapsto> Str '''', ''countryCode'' \<mapsto> Str ''NL'']"]
  by simp

subsection \<open>The constructor\<close>

lemma constructor_options:
  "k \<noteq> ''locale'' \<Longrightarrow> k \<noteq> ''exposeLibraryMetadata'' \<Longrightarrow>
   getp (setOptions None ([''exposeLibraryMetadata'' \<mapsto> Bool True] ++ props)) k = getp props k"
  by (simp add: setOptions_def getp_def map_add_def split: option.splits)

lemma sample_endpoints:
  "str_includes ''https://checkoutshopper-test.adyen.com/checkoutshopper/'' ''test''"
  "\<not> str_includes ''https://checkoutshopper-test.adyen.com/checkoutshopper/'' ''live''"
  "str_includes ''https://checkoutshopper-live.adyen.com/checkoutshopper/'' ''live''"
  "\<not> str_includes ''https://checkoutshopper-live.adyen.com/checkoutshopper/'' ''test''"
  by (simp_all add: str_includes_def sublist_Cons_right)

text \<open>
  C2. A client key whose first four characters are \<^verbatim>\<open>test\<close> or \<^verbatim>\<open>live\<close>, with a
  resolved loading context that does not contain them, makes the constructor throw the
  \<^verbatim>\<open>IMPLEMENTATION_ERROR\<close> checkout error: no instance exists, so no session request
  has been made, and the global \<^verbatim>\<open>window\<close> is as it was.
\<close>

theorem constructor_throws_on_mismatch:
  assumes "getp props ''clientKey'' = Str key"
    and "take 4 key = ''test'' \<or> take 4 key = ''live''"
    and "\<not> str_includes (resolveEnvironment env (getp props ''environment'')
                            (getv (getp props ''environmentUrls'') ''api'')) (take 4 key)"
  shows "Core_constructor env window props =
           (Inl (AdyenCheckoutError ''IMPLEMENTATION_ERROR''
                   (mismatchMessage (Str (take 4 key)) (getp props ''environment''))), window)"
  using assms by (auto simp add: Core_constructor_def Let_def constructor_options)

theorem constructor_throws_on_mismatch_witness:
  "Core_constructor sample_env Map.empty
     [''clientKey'' \<mapsto> Str ''test_ABCDEF'', ''environment'' \<mapsto> Str ''live''] =
   (Inl (AdyenCheckoutError ''IMPLEMENTATION_ERROR''
           ''Error: you are using a test clientKey against the live environment''), Map.empty)"
proof -
  have k: "getp [''clientKey'' \<mapsto> Str ''test_ABCDEF'', ''environment'' \<mapsto> Str ''live'']
             ''clientKey'' = Str ''test_ABCDEF''"
    by simp
  have p: "take 4 ''test_ABCDEF'' = ''test'' \<or> take 4 ''test_ABCDEF'' = ''live''"
    by simp
  have n: "\<not> str_includes
               (resolveEnvironment sample_env
                  (getp [''clientKey'' \<mapsto> Str ''test_ABCDEF'', ''environment'' \<mapsto> Str ''live'']
                     ''environment'')
                  (getv (getp [''clientKey'' \<mapsto> Str ''test_ABCDEF'', ''environment'' \<mapsto> Str ''live'']
                     ''environmentUrls'') ''api''))
               (take 4 ''test_ABCDEF'')"
    by (simp add: sample_env_def sample_endpoints)
  show ?thesis
    using constructor_throws_on_mismatch [OF k p n, of Map.empty]
    by (simp add: mismatchMessage_def)
qed

lemma constructor_expose:
  "getp (setOptions None ([''exposeLibraryMetadata'' \<mapsto> Bool True] ++ props))
        ''exposeLibraryMetadata'' =
     (case props ''exposeLibraryMetadata'' of None \<Rightarrow> Bool True | Some v \<Rightarrow> v)"
  by (simp add: setOptions_def getp_def map_add_def split: option.splits)

text \<open>
  C10. The constructor puts \<^verbatim>\<open>exposeLibraryMetadata: true\<close> before the caller's
  options: for every construction that returns an instance, when the caller does not pass
  the key the option is \<^verbatim>\<open>true\<close> and \<^verbatim>\<open>Core.metadata\<close> is written to
  \<^verbatim>\<open>window.AdyenWebMetadata\<close>; when the caller passes the key, the option is the value
  passed and the metadata is written exactly when that value is truthy, the \<^verbatim>\<open>window\<close>
  being left as it was otherwise. So the binding is missing after the construction only
  when the caller has passed a falsy \<^verbatim>\<open>exposeLibraryMetadata\<close>.
\<close>

theorem constructor_publishes_metadata:
  assumes "Core_constructor env window props = (Inr c, w)"
  shows "(props ''exposeLibraryMetadata'' = None \<longrightarrow>
            getp (options c) ''exposeLibraryMetadata'' = Bool True
            \<and> w = window(''AdyenWebMetadata'' \<mapsto> metadata env))
         \<and> (\<forall>v. props ''exposeLibraryMetadata'' = Some v \<longrightarrow>
            getp (options c) ''exposeLibraryMetadata'' = v
            \<and> w = (if truthy v then window(''AdyenWebMetadata'' \<mapsto> metadata env) else window))
         \<and> (w ''AdyenWebMetadata'' \<noteq> Some (metadata env) \<longrightarrow>
            (\<exists>v. props ''exposeLibraryMetadata'' = Some v \<and> \<not> truthy v))"
  using assms
  by (auto simp add: Core_constructor_def Let_def constructor_expose
      split: sum.splits option.splits if_splits)

theorem constructor_publishes_metadata_witness:
  "snd (Core_constructor sample_env Map.empty [''clientKey'' \<mapsto> Str ''test_ABCDEF''])
     = [''AdyenWebMetadata'' \<mapsto> metadata sample_env]
   \<and> snd (Core_constructor sample_env Map.empty
            [''clientKey'' \<mapsto> Str ''test_ABCDEF'', ''exposeLibraryMetadata'' \<mapsto> Bool False])
     = Map.empty"
proof -
  let ?p = "[''clientKey'' \<mapsto> Str ''test_ABCDEF'']"
  let ?q = "[''clientKey'' \<mapsto> Str ''test_ABCDEF'', ''exposeLibraryMetadata'' \<mapsto> Bool False]"
  have "\<exists>c w. Core_constructor sample_env Map.empty ?p = (Inr c, w)"
    by (simp add: Core_constructor_def Let_def setOptions_def sample_env_def
        sample_endpoints getp_add js_or_def)
  then obtain c w where a: "Core_constructor sample_env Map.empty ?p = (Inr c, w)"
    by blast
  have "\<exists>c w. Core_constructor sample_env Map.empty ?q = (Inr c, w)"
    by (simp add: Core_constructor_def Let_def setOptions_def sample_env_def
        sample_endpoints getp_add js_or_def)
  then obtain c' w' where b: "Core_constructor sample_env Map.empty ?q = (Inr c', w')"
    by blast
  show ?thesis
    using constructor_publishes_metadata [OF a] constructor_publishes_metadata [OF b] a b
    by simp
qed

subsection \<open>initialize\<close>

lemma log_fields [simp]:
  "options (log evs c) = options c" "session (log evs c) = session c"
  "modules (log evs c) = modules c" "allocs (log evs c) = allocs c"
  "trace (log evs c) = trace c @ evs"
  by (simp_all add: log_def)

lemma createPaymentMethodsList_fields [simp]:
  "options (createPaymentMethodsList c p) = options c"
  "session (createPaymentMethodsList c p) = session c"
  "modules (createPaymentMethodsList c p) = modules c"
  "allocs (createPaymentMethodsList c p) = allocs c"
  "trace (createPaymentMethodsList c p) = trace c"
  by (simp_all add: createPaymentMethodsList_def)

lemma setOptions_get:
  "getp (setOptions (Some cur) patch) k =
     (if k = ''locale'' then js_or (getp patch ''locale'') (getp cur ''locale'')
      else case patch k of Some v \<Rightarrow> v | None \<Rightarrow> getp cur k)"
  by (simp add: setOptions_def getp_def map_add_def split: option.splits)

lemma sessionResponseReceived_fields [simp]:
  "session (sessionResponseReceived c r) = session c"
  "modules (sessionResponseReceived c r) = modules c"
  "allocs (sessionResponseReceived c r) = allocs c"
  "trace (sessionResponseReceived c r) = trace c"
  by (simp_all add: sessionResponseReceived_def Let_def)

lemma sessionResponseReceived_countryCode:
  "getp (options (sessionResponseReceived c r)) ''countryCode'' =
     js_or (getp (options c) ''countryCode'') (getp r ''countryCode'')"
  by (simp add: sessionResponseReceived_def Let_def setOptions_get)

lemma sessionResponseReceived_amount:
  "getp (options (sessionResponseReceived c r)) ''amount'' =
     (if truthy (getp (options c) ''order'')
      then getv (getp (options c) ''order'') ''remainingAmount''
      else getp r ''amount'')"
  by (simp add: sessionResponseReceived_def Let_def setOptions_get)

lemma validate_cases:
  "validateCoreConfiguration env c = (r, c') \<Longrightarrow>
     session c' = session c \<and> modules c' = modules c \<and> allocs c' = allocs c
     \<and> getp (options c') ''countryCode'' = getp (options c) ''countryCode''
     \<and> getp (options c') ''amount'' = getp (options c) ''amount''
     \<and> (r = (if truthy (getp (options c) ''countryCode'') then Returns
              else Throws (AdyenCheckoutError IMPLEMENTATION_ERROR
                 (''You must specify a countryCode when initializing checkout. '' @
                  ''(If you are using a session then this session should be initialized with a countryCode.)''))))"
  by (auto simp add: validateCoreConfiguration_def Let_def setOptions_get split: if_splits)

lemma initializeCore_modules:
  "initializeCore env c = (r, c') \<Longrightarrow> modules c' = modules c \<and> allocs c' = allocs c"
  by (auto simp add: initializeCore_def sessionSetupFailed_def
      split: option.splits promise.splits sum.splits if_splits)


lemma log_log: "log b (log a c) = log (a @ b) c"
  by (simp add: log_def)

lemma log_Nil [simp]: "log [] c = c"
  by (simp add: log_def)

lemmas eval_initialize =
  initialize_def initializeCore_def sessionResponseReceived_def sessionSetupFailed_def
  validateCoreConfiguration_def createCoreModules_def createPaymentMethodsList_def
  setOptions_def log_def js_or_def Let_def getp_add

text \<open>
  C3. An instance without a session whose options have no (truthy) \<^verbatim>\<open>countryCode\<close>
  rejects \<^verbatim>\<open>initialize()\<close> with the \<^verbatim>\<open>IMPLEMENTATION_ERROR\<close> checkout error. With a
  session whose setup resolves with a response that carries a country code (a non-empty
  string, or any truthy value), and no country code set by the caller, \<^verbatim>\<open>initialize()\<close>
  is fulfilled and the options hold the country code of the response.
\<close>

theorem initialize_countryCode:
  "(session c = None \<and> \<not> truthy (getp (options c) ''countryCode'') \<longrightarrow>
      (\<exists>msg c'. initialize env c = (Rejected (AdyenCheckoutError IMPLEMENTATION_ERROR msg), c')))
   \<and> (\<forall>s resp. session c = Some s \<and> setupSession env s (options c) = Fulfilled resp
         \<and> \<not> truthy (getp (options c) ''countryCode'') \<and> truthy (getp resp ''countryCode'') \<longrightarrow>
       (\<exists>c'. initialize env c = (Fulfilled (), c')
             \<and> getp (options c') ''countryCode'' = getp resp ''countryCode''))"
proof (intro conjI impI allI)
  assume a: "session c = None \<and> \<not> truthy (getp (options c) ''countryCode'')"
  obtain r c' where v: "validateCoreConfiguration env (createPaymentMethodsList c Undefined) = (r, c')"
    by (cases "validateCoreConfiguration env (createPaymentMethodsList c Undefined)")
  from validate_cases [OF v] a
  have "r = Throws (AdyenCheckoutError IMPLEMENTATION_ERROR
                 (''You must specify a countryCode when initializing checkout. '' @
                  ''(If you are using a session then this session should be initialized with a countryCode.)''))"
    by simp
  with a v show "\<exists>msg c'. initialize env c = (Rejected (AdyenCheckoutError IMPLEMENTATION_ERROR msg), c')"
    by (simp add: initialize_def initializeCore_def)
next
  fix s resp
  assume a: "session c = Some s \<and> setupSession env s (options c) = Fulfilled resp
         \<and> \<not> truthy (getp (options c) ''countryCode'') \<and> truthy (getp resp ''countryCode'')"
  let ?c1 = "sessionResponseReceived (log [SetupSession] c) resp"
  have cc: "getp (options ?c1) ''countryCode'' = getp resp ''countryCode''"
    using a by (simp add: sessionResponseReceived_countryCode js_or_def)
  obtain r c' where v: "validateCoreConfiguration env ?c1 = (r, c')"
    by (cases "validateCoreConfiguration env ?c1")
  from validate_cases [OF v] cc a
  have r: "r = Returns" and cc': "getp (options c') ''countryCode'' = getp resp ''countryCode''"
    by simp_all
  have o: "getp (options (createCoreModules env c')) ''countryCode'' = getp (options c') ''countryCode''"
    by (simp add: createCoreModules_def split: option.splits)
  from a v r cc' o
  show "\<exists>c'. initialize env c = (Fulfilled (), c')
             \<and> getp (options c') ''countryCode'' = getp resp ''countryCode''"
    by (simp add: initialize_def initializeCore_def)
qed

theorem initialize_countryCode_witness:
  "(\<exists>msg c'. initialize sample_env (sample_core Map.empty None) =
       (Rejected (AdyenCheckoutError IMPLEMENTATION_ERROR msg), c'))
   \<and> (\<exists>c'. initialize sample_env
              (sample_core [''clientKey'' \<mapsto> Str ''test_ABCDEF''] (Some sample_session)) =
            (Fulfilled (), c')
          \<and> getp (options c') ''countryCode'' = Str ''NL'')"
proof -
  have a: "session (sample_core Map.empty None) = None
           \<and> \<not> truthy (getp (options (sample_core Map.empty None)) ''countryCode'')"
    by (simp add: sample_core_def)
  have b: "session (sample_core [''clientKey'' \<mapsto> Str ''test_ABCDEF''] (Some sample_session))
             = Some sample_session
           \<and> setupSession sample_env sample_session
               (options (sample_core [''clientKey'' \<mapsto> Str ''test_ABCDEF''] (Some sample_session)))
             = Fulfilled sample_sessionResponse
           \<and> \<not> truthy (getp (options (sample_core [''clientKey'' \<mapsto> Str ''test_ABCDEF'']
                                        (Some sample_session))) ''countryCode'')
           \<and> truthy (getp sample_sessionResponse ''countryCode'')"
    by (simp add: sample_core_def sample_env_def sample_sessionResponse_def)
  have c: "getp sample_sessionResponse ''countryCode'' = Str ''NL''"
    by (simp add: sample_sessionResponse_def)
  show ?thesis
    using initialize_countryCode [of "sample_core Map.empty None" sample_env] a
      initialize_countryCode
        [of "sample_core [''clientKey'' \<mapsto> Str ''test_ABCDEF''] (Some sample_session)" sample_env]
      b c
    by metis
qed

text \<open>
  C4, as stated, fails for an order that has no \<^verbatim>\<open>remainingAmount\<close>: no order with a
  remaining amount is present, and yet the effective amount is not the amount of the
  session; it is \<^verbatim>\<open>undefined\<close>, since the source tests the order alone.
\<close>

theorem order_without_remainingAmount_drops_session_amount:
  "getv (getp (options (sample_core [''countryCode'' \<mapsto> Str ''NL'',
                                     ''order'' \<mapsto> Obj [''orderData'' \<mapsto> Str ''Ab02b4c0'',
                                                       ''pspReference'' \<mapsto> Str ''8815'']]
                          (Some sample_session))) ''order'') ''remainingAmount'' = Undefined
   \<and> getp sample_sessionResponse ''amount'' \<noteq> Undefined
   \<and> fst (initialize sample_env
            (sample_core [''countryCode'' \<mapsto> Str ''NL'',
                          ''order'' \<mapsto> Obj [''orderData'' \<mapsto> Str ''Ab02b4c0'',
                                            ''pspReference'' \<mapsto> Str ''8815'']]
               (Some sample_session))) = Fulfilled ()
   \<and> getp (options (snd (initialize sample_env
            (sample_core [''countryCode'' \<mapsto> Str ''NL'',
                          ''order'' \<mapsto> Obj [''orderData'' \<mapsto> Str ''Ab02b4c0'',
                                            ''pspReference'' \<mapsto> Str ''8815'']]
               (Some sample_session))))) ''amount'' = Undefined"
  by (simp add: eval_initialize sample_core_def sample_env_def sample_sessionResponse_def)

text \<open>
  C4, amended. After the session setup has resolved, the amount in the options is the
  amount of the session response when the options have no (truthy) \<^verbatim>\<open>order\<close>, and is
  \<^verbatim>\<open>order.remainingAmount\<close> of the options when they have one (so \<^verbatim>\<open>undefined\<close>
  when that order has no remaining amount), whether or not the validation that follows
  throws.
\<close>

theorem session_amount_folded:
  assumes "session c = Some s" and "setupSession env s (options c) = Fulfilled resp"
  shows "getp (options (snd (initialize env c))) ''amount'' =
           (if truthy (getp (options c) ''order'')
            then getv (getp (options c) ''order'') ''remainingAmount''
            else getp resp ''amount'')"
proof -
  let ?c1 = "sessionResponseReceived (log [SetupSession] c) resp"
  obtain r c' where v: "validateCoreConfiguration env ?c1 = (r, c')"
    by (cases "validateCoreConfiguration env ?c1")
  have o: "getp (options (createCoreModules env c')) ''amount'' = getp (options c') ''amount''"
    by (simp add: createCoreModules_def split: option.splits)
  from validate_cases [OF v] have "getp (options c') ''amount'' = getp (options ?c1) ''amount''"
    by simp
  with assms v o show ?thesis
    by (cases r) (simp_all add: initialize_def initializeCore_def sessionResponseReceived_amount)
qed

theorem session_amount_folded_witness:
  "getp (options (snd (initialize sample_env
            (sample_core [''countryCode'' \<mapsto> Str ''NL'',
                          ''order'' \<mapsto> Obj [''remainingAmount'' \<mapsto> Num 250]]
               (Some sample_session))))) ''amount'' = Num 250
   \<and> getp (options (snd (initialize sample_env
            (sample_core [''countryCode'' \<mapsto> Str ''NL''] (Some sample_session))))) ''amount''
       = getp sample_sessionResponse ''amount''"
proof -
  have s: "\<And>opts. session (sample_core opts (Some sample_session)) = Some sample_session"
    by (simp add: sample_core_def)
  have r: "\<And>opts. setupSession sample_env sample_session (options (sample_core opts (Some sample_session)))
             = Fulfilled sample_sessionResponse"
    by (simp add: sample_env_def)
  show ?thesis
    using session_amount_folded [OF s r, of "[''countryCode'' \<mapsto> Str ''NL'',
                          ''order'' \<mapsto> Obj [''remainingAmount'' \<mapsto> Num 250]]"]
      session_amount_folded [OF s r, of "[''countryCode'' \<mapsto> Str ''NL'']"]
    by (simp add: sample_core_def)
qed

text \<open>
  C7, as stated, fails in a build whose \<^verbatim>\<open>NODE_ENV\<close> is not \<^verbatim>\<open>development\<close>: the
  second \<^verbatim>\<open>initialize()\<close> is fulfilled and logs nothing.
\<close>

theorem second_initialize_silent_in_production:
  "NODE_ENV sample_env \<noteq> ''development''
   \<and> fst (initialize sample_env (sample_core [''countryCode'' \<mapsto> Str ''NL''] None)) = Fulfilled ()
   \<and> fst (initialize sample_env
            (snd (initialize sample_env (sample_core [''countryCode'' \<mapsto> Str ''NL''] None))))
       = Fulfilled ()
   \<and> trace (snd (initialize sample_env
            (snd (initialize sample_env (sample_core [''countryCode'' \<mapsto> Str ''NL''] None)))))
       = []"
  by (simp add: eval_initialize sample_core_def sample_env_def)

text \<open>
  C7, amended. After a fulfilled \<^verbatim>\<open>initialize()\<close> the modules exist, and a second
  \<^verbatim>\<open>initialize()\<close> leaves the same modules object in place and allocates none,
  whatever its outcome. When the second call is fulfilled, its \<^verbatim>\<open>createCoreModules\<close>
  step does nothing but log the warning, and that only when \<^verbatim>\<open>NODE_ENV\<close> is
  \<^verbatim>\<open>development\<close>; in any other build it does nothing at all.
\<close>

theorem initialize_twice_keeps_modules:
  assumes "initialize env1 c0 = (Fulfilled (), c1)" and "initialize env2 c1 = (r, c2)"
  shows "modules c1 \<noteq> None \<and> modules c2 = modules c1 \<and> allocs c2 = allocs c1
         \<and> (r = Fulfilled () \<longrightarrow>
              (\<exists>c'. validateCoreConfiguration env2 (snd (initializeCore env2 c1)) = (Returns, c')
                    \<and> c2 = (if NODE_ENV env2 = ''development''
                            then log [ConsoleWarn ''Core: Core modules are already created.''] c'
                            else c')))"
proof -
  have m1: "modules c1 \<noteq> None"
    using assms(1)
    by (auto simp add: initialize_def createCoreModules_def
        split: prod.splits promise.splits completion.splits option.splits if_splits)
  obtain p ca where ic: "initializeCore env2 c1 = (p, ca)"
    by (cases "initializeCore env2 c1")
  note ia = initializeCore_modules [OF ic]
  obtain q cb where v: "validateCoreConfiguration env2 ca = (q, cb)"
    by (cases "validateCoreConfiguration env2 ca")
  note va = validate_cases [OF v]
  from m1 ia va have mb: "modules cb = modules c1" "allocs cb = allocs c1" "modules cb \<noteq> None"
    by simp_all
  have cm: "createCoreModules env2 cb =
              (if NODE_ENV env2 = ''development''
               then log [ConsoleWarn ''Core: Core modules are already created.''] cb else cb)"
    using mb(3) by (auto simp add: createCoreModules_def)
  have cf: "modules (createCoreModules env2 cb) = modules c1"
    "allocs (createCoreModules env2 cb) = allocs c1"
    using mb by (simp_all add: cm)
  show ?thesis
  proof (cases p)
    case (Fulfilled u)
    show ?thesis
    proof (cases q)
      case Returns
      with Fulfilled assms(2) ic v have "r = Fulfilled ()" and "c2 = createCoreModules env2 cb"
        by (simp_all add: initialize_def)
      with m1 cf cm ic v Returns show ?thesis
        by simp
    next
      case (Throws e)
      with Fulfilled assms(2) ic v have "r = Rejected e" and "c2 = cb"
        by (simp_all add: initialize_def)
      with m1 mb show ?thesis
        by simp
    qed
  next
    case (Rejected e)
    with assms(2) ic have "r = Rejected e" and "c2 = ca"
      by (simp_all add: initialize_def)
    with m1 ia show ?thesis
      by simp
  next
    case Pending
    with assms(2) ic have "r = Pending" and "c2 = ca"
      by (simp_all add: initialize_def)
    with m1 ia show ?thesis
      by simp
  qed
qed

theorem initialize_twice_keeps_modules_witness:
  "modules (snd (initialize sample_dev_env (sample_core [''countryCode'' \<mapsto> Str ''NL''] None)))
     \<noteq> None
   \<and> modules (snd (initialize sample_dev_env
        (snd (initialize sample_dev_env (sample_core [''countryCode'' \<mapsto> Str ''NL''] None)))))
     = modules (snd (initialize sample_dev_env (sample_core [''countryCode'' \<mapsto> Str ''NL''] None)))
   \<and> trace (snd (initialize sample_dev_env
        (snd (initialize sample_dev_env (sample_core [''countryCode'' \<mapsto> Str ''NL''] None)))))
     = [ConsoleWarn ''Core: Core modules are already created.'']"
proof -
  let ?c0 = "sample_core [''countryCode'' \<mapsto> Str ''NL''] None"
  let ?c1 = "snd (initialize sample_dev_env ?c0)"
  have f: "fst (initialize sample_dev_env ?c0) = Fulfilled ()"
    by (simp add: eval_initialize sample_core_def sample_dev_env_def sample_env_def)
  then have first: "initialize sample_dev_env ?c0 = (Fulfilled (), ?c1)"
    by (simp add: prod_eq_iff)
  have second: "initialize sample_dev_env ?c1 =
                  (fst (initialize sample_dev_env ?c1), snd (initialize sample_dev_env ?c1))"
    by simp
  have t: "trace (snd (initialize sample_dev_env ?c1))
             = [ConsoleWarn ''Core: Core modules are already created.'']"
    by (simp add: eval_initialize sample_core_def sample_dev_env_def sample_env_def)
  show ?thesis
    using initialize_twice_keeps_modules [OF first second] t
    by simp
qed

text \<open>
  C8. When the session setup is rejected with an error, \<^verbatim>\<open>initialize()\<close> is rejected
  with that same error; a configured \<^verbatim>\<open>onError\<close> function is called once with it, after
  the session request and before the rejection, and with no \<^verbatim>\<open>onError\<close> nothing is
  called.
\<close>

theorem session_setup_failure_forwarded:
  assumes "session c = Some s" and "setupSession env s (options c) = Rejected e"
  shows "(\<forall>f. getp (options c) ''onError'' = Fn f \<longrightarrow>
            initialize env c = (Rejected e, log [SetupSession, Invoke f [e]] c))
         \<and> (\<not> truthy (getp (options c) ''onError'') \<longrightarrow>
            initialize env c = (Rejected e, log [SetupSession] c))"
  using assms
  by (simp add: initialize_def initializeCore_def sessionSetupFailed_def log_log)

theorem session_setup_failure_forwarded_witness:
  "initialize sample_offline_env
     (sample_core [''onError'' \<mapsto> Fn ''onError''] (Some sample_session)) =
   (Rejected (Error ''Failed to fetch''),
    log [SetupSession, Invoke ''onError'' [Error ''Failed to fetch'']]
      (sample_core [''onError'' \<mapsto> Fn ''onError''] (Some sample_session)))
   \<and> initialize sample_offline_env (sample_core Map.empty (Some sample_session)) =
   (Rejected (Error ''Failed to fetch''),
    log [SetupSession] (sample_core Map.empty (Some sample_session)))"
proof -
  have s: "\<And>opts. session (sample_core opts (Some sample_session)) = Some sample_session"
    by (simp add: sample_core_def)
  have r: "\<And>opts. setupSession sample_offline_env sample_session
                    (options (sample_core opts (Some sample_session)))
             = Rejected (Error ''Failed to fetch'')"
    by (simp add: sample_offline_env_def sample_env_def)
  show ?thesis
    using session_setup_failure_forwarded [OF s r, of "[''onError'' \<mapsto> Fn ''onError'']"]
      session_setup_failure_forwarded [OF s r, of Map.empty]
    by (simp add: sample_core_def)
qed

subsection \<open>submitDetails\<close>

lemmas eval_submitDetails =
  submitDetails_def additionalDetailsPromise_def sessionDetailsPromise_def postProcess_def
  paymentCompleted_def paymentFailed_def opt_invoke_def Let_def

text \<open>
  C1. With both an \<^verbatim>\<open>onAdditionalDetails\<close> callback and a session, the two
  \<^verbatim>\<open>if\<close> statements of \<^verbatim>\<open>submitDetails\<close> both run: the callback is called with the
  details, then \<^verbatim>\<open>session.submitDetails\<close> is called and its promise replaces the first
  one, so that \<^verbatim>\<open>onPaymentCompleted\<close> receives the response of the session and the
  response the callback resolves with is dropped.
\<close>

theorem submitDetails_runs_both_pathways:
  "submitDetails sample_env
     (sample_core [''onAdditionalDetails'' \<mapsto> Fn ''onAdditionalDetails'',
                   ''onPaymentCompleted'' \<mapsto> Fn ''onPaymentCompleted'']
        (Some sample_session))
     sample_details =
   (Returns,
    log [Invoke ''onAdditionalDetails''
           [Obj [''data'' \<mapsto> sample_details], Undefined,
            Obj [''resolve'' \<mapsto> Fn ''resolve'', ''reject'' \<mapsto> Fn ''reject'']],
         SessionSubmitDetails sample_details,
         Invoke ''onPaymentCompleted'' [Str ''response of the session'']]
      (sample_core [''onAdditionalDetails'' \<mapsto> Fn ''onAdditionalDetails'',
                    ''onPaymentCompleted'' \<mapsto> Fn ''onPaymentCompleted'']
         (Some sample_session)))"
  by (simp add: eval_submitDetails sample_core_def sample_env_def)

text \<open>
  C5, as stated, fails for a configuration without \<^verbatim>\<open>onError\<close>: with no callback,
  no session and no \<^verbatim>\<open>onError\<close>, the call returns and nothing at all has been called.
\<close>

theorem submitDetails_silent_without_onError:
  "submitDetails sample_env (sample_core Map.empty None) sample_details =
     (Returns, sample_core Map.empty None)
   \<and> trace (snd (submitDetails sample_env (sample_core Map.empty None) sample_details)) = []"
  by (simp add: eval_submitDetails sample_core_def sample_env_def)

text \<open>
  C5, amended. With neither an \<^verbatim>\<open>onAdditionalDetails\<close> callback nor a session,
  \<^verbatim>\<open>submitDetails\<close> returns without throwing; a configured \<^verbatim>\<open>onError\<close> function is
  called exactly once, with the \<^verbatim>\<open>IMPLEMENTATION_ERROR\<close> checkout error, and nothing else
  is called; when \<^verbatim>\<open>onError\<close> is not configured nothing is called.
\<close>

theorem submitDetails_without_pathway:
  assumes "\<not> truthy (getp (options c) ''onAdditionalDetails'')" and "session c = None"
  shows "(\<forall>f. getp (options c) ''onError'' = Fn f \<longrightarrow>
            submitDetails env c details =
              (Returns,
               log [Invoke f [AdyenCheckoutError ''IMPLEMENTATION_ERROR'' noPathwayMessage]] c))
         \<and> (nullish (getp (options c) ''onError'') \<longrightarrow>
            submitDetails env c details = (Returns, c))"
  using assms by (simp add: eval_submitDetails)

theorem submitDetails_without_pathway_witness:
  "submitDetails sample_env (sample_core [''onError'' \<mapsto> Fn ''onError''] None) sample_details =
     (Returns,
      log [Invoke ''onError'' [AdyenCheckoutError ''IMPLEMENTATION_ERROR'' noPathwayMessage]]
        (sample_core [''onError'' \<mapsto> Fn ''onError''] None))
   \<and> submitDetails sample_env (sample_core [''clientKey'' \<mapsto> Str ''test_ABCDEF''] None)
        sample_details =
     (Returns, sample_core [''clientKey'' \<mapsto> Str ''test_ABCDEF''] None)"
proof -
  have a: "\<And>opts. opts ''onAdditionalDetails'' = None \<Longrightarrow>
             \<not> truthy (getp (options (sample_core opts None)) ''onAdditionalDetails'')"
    by (simp add: sample_core_def getp_def)
  have s: "\<And>opts. session (sample_core opts None) = None"
    by (simp add: sample_core_def)
  show ?thesis
    using submitDetails_without_pathway [OF a s, of "[''onError'' \<mapsto> Fn ''onError'']"]
      submitDetails_without_pathway [OF a s, of "[''clientKey'' \<mapsto> Str ''test_ABCDEF'']"]
    by (simp add: sample_core_def)
qed

subsection \<open>createFromAction\<close>

lemma messages_differ: "wholeResponseMessage \<noteq> missingTypeMessage"
  by (simp add: wholeResponseMessage_def missingTypeMessage_def)

lemma includes_middle: "str_includes (a @ b @ c) b"
  by (simp add: str_includes_def)

lemma includes_prefix: "str_includes (a @ b) a"
  by (simp add: str_includes_def)

lemma includes_suffix: "str_includes (a @ b) b"
  by (simp add: str_includes_def)

text \<open>
  C6, as stated, fails on an instance whose modules do not exist yet (before
  \<^verbatim>\<open>initialize()\<close>): an action with a type and no registry entry makes
  \<^verbatim>\<open>createFromAction\<close> throw the \<^verbatim>\<open>TypeError\<close> of reading
  \<^verbatim>\<open>this.modules.analytics\<close>, which names neither the payment method nor the value
  passed; the dispatcher is not reached.
\<close>

theorem createFromAction_before_initialize:
  "modules (sample_core Map.empty None) = None
   \<and> createFromAction sample_env (sample_core Map.empty None)
        (Obj [''type'' \<mapsto> Str ''unknownType'']) Map.empty =
     (Inl (TypeError ''Cannot read properties of undefined (reading 'analytics')''),
      sample_core Map.empty None)
   \<and> \<not> str_includes ''Cannot read properties of undefined (reading 'analytics')''
          ''unknownType''"
  by (simp add: createFromAction_def sample_core_def str_includes_def sublist_Cons_right)

text \<open>
  C6, amended. For an action object without a (truthy) \<^verbatim>\<open>type\<close>,
  \<^verbatim>\<open>createFromAction\<close> throws the whole-response diagnostic when the object has both an
  \<^verbatim>\<open>action\<close> and a \<^verbatim>\<open>resultCode\<close> property and the missing-type error otherwise,
  and the two messages differ. On an instance whose modules exist, an action with a type
  whose component key has no registry entry makes it send the analytics event and throw an
  error whose message contains the offending payment method and the raw value passed; no
  element is returned. On an instance whose modules do not exist, an action with a type
  makes it throw a \<^verbatim>\<open>TypeError\<close> and nothing else happens.
\<close>

theorem createFromAction_errors:
  "(\<not> truthy (getp a ''type'') \<longrightarrow>
      createFromAction env c (Obj a) opts =
        (Inl (Error (if ''action'' \<in> dom a \<and> ''resultCode'' \<in> dom a
                     then wholeResponseMessage else missingTypeMessage)), c))
   \<and> wholeResponseMessage \<noteq> missingTypeMessage
   \<and> (truthy (getv action ''type'') \<and> modules c \<noteq> None
        \<and> registryGetComponent env (componentKey env action) = None \<longrightarrow>
      createFromAction env c action opts =
        (Inl (Error (unknownComponentMessage env action)),
         log [SendAnalytics (componentKey env action)
                [''type'' \<mapsto> Str (ANALYTICS_ACTION_STR env),
                 ''subtype'' \<mapsto> getv action ''type'',
                 ''message'' \<mapsto>
                    Str (toStr (componentKey env action) @ '' action was handled by the SDK'')]] c)
      \<and> str_includes (unknownComponentMessage env action)
            (toStr (offendingPaymentMethod action))
      \<and> str_includes (unknownComponentMessage env action) (stringify env action))
   \<and> (truthy (getv action ''type'') \<and> modules c = None \<longrightarrow>
      (\<exists>msg. createFromAction env c action opts = (Inl (TypeError msg), c)))"
proof (intro conjI impI)
  assume "\<not> truthy (getp a ''type'')"
  then show "createFromAction env c (Obj a) opts =
        (Inl (Error (if ''action'' \<in> dom a \<and> ''resultCode'' \<in> dom a
                     then wholeResponseMessage else missingTypeMessage)), c)"
    by (simp add: createFromAction_def)
next
  show "wholeResponseMessage \<noteq> missingTypeMessage"
    by (rule messages_differ)
next
  assume h: "truthy (getv action ''type'') \<and> modules c \<noteq> None
        \<and> registryGetComponent env (componentKey env action) = None"
  then have ta: "truthy action"
    by (cases action) (simp_all split: if_splits)
  from h obtain m where m: "modules c = Some m"
    by auto
  from h ta m
  show "createFromAction env c action opts =
        (Inl (Error (unknownComponentMessage env action)),
         log [SendAnalytics (componentKey env action)
                [''type'' \<mapsto> Str (ANALYTICS_ACTION_STR env),
                 ''subtype'' \<mapsto> getv action ''type'',
                 ''message'' \<mapsto>
                    Str (toStr (componentKey env action) @ '' action was handled by the SDK'')]] c)"
    by (simp add: createFromAction_def Let_def getCorePropsForComponent_def
        getComponentForAction_def)
next
  show "str_includes (unknownComponentMessage env action)
            (toStr (offendingPaymentMethod action))"
    unfolding unknownComponentMessage_def by (rule includes_prefix)
next
  show "str_includes (unknownComponentMessage env action) (stringify env action)"
    unfolding unknownComponentMessage_def
    by (simp only: append_assoc [symmetric] includes_suffix)
next
  assume h: "truthy (getv action ''type'') \<and> modules c = None"
  then have ta: "truthy action"
    by (cases action) (simp_all split: if_splits)
  from h ta show "\<exists>msg. createFromAction env c action opts = (Inl (TypeError msg), c)"
    by (simp add: createFromAction_def)
qed

theorem createFromAction_errors_witness:
  "createFromAction sample_env sample_ready_core (Obj Map.empty) Map.empty =
     (Inl (Error missingTypeMessage), sample_ready_core)
   \<and> createFromAction sample_env sample_ready_core
        (Obj [''action'' \<mapsto> Obj [''type'' \<mapsto> Str ''redirect''],
              ''resultCode'' \<mapsto> Str ''RedirectShopper'']) Map.empty =
     (Inl (Error wholeResponseMessage), sample_ready_core)
   \<and> fst (createFromAction sample_env sample_ready_core
             (Obj [''type'' \<mapsto> Str ''unknownType'']) Map.empty) =
     Inl (Error (''unknownType is not a valid Checkout Component. '' @
                 ''What was passed was: {\"type\":\"unknownType\"}''))
   \<and> str_includes (unknownComponentMessage sample_env (Obj [''type'' \<mapsto> Str ''unknownType'']))
        ''unknownType''
   \<and> (\<exists>msg. createFromAction sample_env (sample_core Map.empty None)
                (Obj [''type'' \<mapsto> Str ''unknownType'']) Map.empty =
              (Inl (TypeError msg), sample_core Map.empty None))"
proof -
  let ?whole = "[''action'' \<mapsto> Obj [''type'' \<mapsto> Str ''redirect''],
                 ''resultCode'' \<mapsto> Str ''RedirectShopper'']"
  let ?unknown = "Obj [''type'' \<mapsto> Str ''unknownType'']"
  have k: "componentKey sample_env ?unknown = Undefined"
    by (simp add: componentKey_def sample_env_def)
  have h: "truthy (getv ?unknown ''type'') \<and> modules sample_ready_core \<noteq> None
           \<and> registryGetComponent sample_env (componentKey sample_env ?unknown) = None"
    unfolding k
    by (simp add: sample_ready_core_def createCoreModules_def sample_core_def)
  have h': "truthy (getv ?unknown ''type'') \<and> modules (sample_core Map.empty None) = None"
    by (simp add: sample_core_def)
  have p: "toStr (offendingPaymentMethod ?unknown) = ''unknownType''"
    by (simp add: offendingPaymentMethod_def js_or_def)
  have m: "unknownComponentMessage sample_env ?unknown =
             ''unknownType is not a valid Checkout Component. '' @
             ''What was passed was: {\"type\":\"unknownType\"}''"
    by (simp add: unknownComponentMessage_def offendingPaymentMethod_def js_or_def
        sample_env_def sample_stringify_def)
  show ?thesis
    using createFromAction_errors
            [of Map.empty sample_env sample_ready_core Map.empty ?unknown]
          createFromAction_errors
            [of ?whole sample_env sample_ready_core Map.empty ?unknown]
          createFromAction_errors
            [of Map.empty sample_env "sample_core Map.empty None" Map.empty ?unknown]
          h h'
    unfolding p m
    by simp
qed

end
